theory Spec2Isabelle
  imports Complex_Main
begin

section \<open>Data model\<close>

text \<open>
  The module \<^verbatim>\<open>src/bezier/_implicitization.py\<close> works on numpy arrays of floats. The
  properties verified here are the ones the specification states "in exact arithmetic",
  so a float is modelled as a \<^typ>\<open>real\<close>: rounding is outside the model.

  An \<open>N \<times> 2\<close> node array is a list of \<open>N\<close> rows, each row a pair \<open>(x, y)\<close>; the
  docstring of \<^verbatim>\<open>evaluate\<close> assumes (and does not check) the two columns, and the type
  builds the assumption in. \<^verbatim>\<open>nodes.shape[0]\<close> is the length of the list. A general
  matrix (the \<open>6 \<times> 6\<close> one of \<^verbatim>\<open>_evaluate3\<close>) is a list of rows.
\<close>

type_synonym point = "real \<times> real"
type_synonym nodes = "point list"
type_synonym matrix = "real list list"

text \<open>
  Python exceptions are values. An exception carries its constructor arguments: strings
  and integers here.
\<close>

datatype arg = Str string | Num int

datatype error = ValueError "arg list" | NotImplementedError "arg list"

section \<open>The numpy operations used by the module\<close>

text \<open>\<^verbatim>\<open>np.zeros((m, n))\<close>.\<close>

definition zeros :: "nat \<Rightarrow> nat \<Rightarrow> matrix" where
  "zeros m n = replicate m (replicate n 0)"

text \<open>
  \<^verbatim>\<open>mat[r:r+h, c:c+w] = blk\<close> for a block \<open>blk\<close> of shape \<open>h \<times> w\<close> that lies inside
  \<open>mat\<close>: entry \<open>(i, j)\<close> of the target window receives entry \<open>(i - r, j - c)\<close> of the
  block, every other entry is kept. (The model is used with a block of exactly the shape
  of the window; numpy would broadcast or raise on any other shape.)
\<close>

definition assign_block :: "nat \<Rightarrow> nat \<Rightarrow> matrix \<Rightarrow> matrix \<Rightarrow> matrix" where
  "assign_block r c blk mat =
     map (\<lambda>i. map (\<lambda>j. if r \<le> i \<and> i < r + length blk \<and> c \<le> j \<and> j < c + length (blk ! (i - r))
                        then blk ! (i - r) ! (j - c)
                        else mat ! i ! j)
               [0..<length (mat ! i)])
         [0..<length mat]"

text \<open>
  \<^verbatim>\<open>delta[lo:hi, :] *= k\<close>: the rows \<open>lo \<le> i < hi\<close> are multiplied by \<open>k\<close>.
\<close>

definition scale_rows :: "nat \<Rightarrow> nat \<Rightarrow> real \<Rightarrow> matrix \<Rightarrow> matrix" where
  "scale_rows lo hi k mat =
     map (\<lambda>i. if lo \<le> i \<and> i < hi then map (\<lambda>v. v * k) (mat ! i) else mat ! i)
         [0..<length mat]"

text \<open>
  \<^verbatim>\<open>np.linalg.det\<close>, in exact arithmetic: the determinant of a square matrix, computed
  here by Laplace expansion along the first row. The minor of the first row and column
  \<open>j\<close> drops that column from every remaining row.
\<close>

fun det :: "matrix \<Rightarrow> real" where
  "det [] = 1"
| "det (r # rs) =
     sum_list (map (\<lambda>j. (- 1) ^ j * (r ! j) * det (map (\<lambda>row. take j row @ drop (Suc j) row) rs))
                   [0..<length r])"

section \<open>The implicit evaluator\<close>

text \<open>
  \<^verbatim>\<open>_evaluate3(nodes, x_val, y_val)\<close>, the helper for four nodes. \<open>delta\<close> is the node
  array minus the query point in every row, then rows 1 and 2 times 3; it is written
  into a zero \<open>6 \<times> 6\<close> matrix three times.
\<close>

definition evaluate3 :: "nodes \<Rightarrow> real \<Rightarrow> real \<Rightarrow> real" where
  "evaluate3 nodes x_val y_val =
     (let sylvester_mat = zeros 6 6;
          delta = map (\<lambda>(px, py). [px - x_val, py - y_val]) nodes;
          delta = scale_rows 1 3 3 delta;
          sylvester_mat = assign_block 0 0 delta sylvester_mat;
          sylvester_mat = assign_block 1 2 delta sylvester_mat;
          sylvester_mat = assign_block 2 4 delta sylvester_mat
      in det sylvester_mat)"

text \<open>
  \<^verbatim>\<open>evaluate(nodes, x_val, y_val)\<close>: dispatch on the number of nodes, in the order of
  the source's \<^verbatim>\<open>if\<close>/\<^verbatim>\<open>elif\<close> chain.
\<close>

definition evaluate :: "nodes \<Rightarrow> real \<Rightarrow> real \<Rightarrow> error + real" where
  "evaluate nodes x_val y_val =
     (let num_nodes = length nodes in
      if num_nodes = 1 then Inl (ValueError [Str ''A point cannot be implicitized''])
      else if num_nodes = 2 then
        Inr ((fst (nodes ! 0) - x_val) * (snd (nodes ! 1) - y_val) -
             (fst (nodes ! 1) - x_val) * (snd (nodes ! 0) - y_val))
      else if num_nodes = 3 then
        (let val_a = fst (nodes ! 0) - x_val;
             val_b = fst (nodes ! 1) - x_val;
             val_c = fst (nodes ! 2) - x_val;
             val_b = val_b * 2;
             val_d = snd (nodes ! 0) - y_val;
             val_e = snd (nodes ! 1) - y_val;
             val_f = snd (nodes ! 2) - y_val;
             val_e = val_e * 2;
             sub1 = val_b * val_f - val_c * val_e;
             sub2 = val_a * val_f - val_c * val_d;
             sub_det_a = - val_e * sub1 + val_f * sub2;
             sub_det_d = val_b * sub1 - val_c * sub2
         in Inr (val_a * sub_det_a + val_d * sub_det_d))
      else if num_nodes = 4 then Inr (evaluate3 nodes x_val y_val)
      else Inl (NotImplementedError [Str ''Only degrees 1 and 2 supported'']))"

section \<open>The curve evaluation consumed by the sampler\<close>

text \<open>
  Modelled from the spec: \<^verbatim>\<open>_curve_helpers.evaluate_multi\<close>, which the module imports and
  whose source is not part of the files verified here. The specification describes it as
  the capability that, "given a curve's node array and a sequence of parameter values",
  "returns the corresponding sequence of (x,y) coordinate pairs", by "de Casteljau or
  Bernstein-basis evaluation". The model is the Bernstein form: with \<open>n + 1\<close> nodes
  \<open>p\<^sub>0, \<dots>, p\<^sub>n\<close> the position at \<open>s\<close> is the sum of
  \<open>(n choose j) (1 - s)\<^bsup>n - j\<^esup> s\<^bsup>j\<^esup> p\<^sub>j\<close>, one pair per parameter value.
\<close>

definition bernstein :: "nat \<Rightarrow> nat \<Rightarrow> real \<Rightarrow> real" where
  "bernstein n j s = real (n choose j) * (1 - s) ^ (n - j) * s ^ j"

definition evaluate_multi :: "nodes \<Rightarrow> real list \<Rightarrow> point list" where
  "evaluate_multi nodes s_vals =
     map (\<lambda>s. (sum_list (map (\<lambda>j. bernstein (length nodes - 1) j s * fst (nodes ! j))
                             [0..<length nodes]),
               sum_list (map (\<lambda>j. bernstein (length nodes - 1) j s * snd (nodes ! j))
                             [0..<length nodes])))
         s_vals"

text \<open>
  De Casteljau's scheme, the other evaluation the specification names: one round replaces
  adjacent nodes by their interpolation at \<open>s\<close>; \<open>n\<close> rounds leave one point.
\<close>

fun de_casteljau_round :: "real \<Rightarrow> nodes \<Rightarrow> nodes" where
  "de_casteljau_round s (p # q # ps) =
     ((1 - s) * fst p + s * fst q, (1 - s) * snd p + s * snd q) # de_casteljau_round s (q # ps)"
| "de_casteljau_round s ps = []"

definition de_casteljau :: "nodes \<Rightarrow> real \<Rightarrow> nodes" where
  "de_casteljau nodes s = (de_casteljau_round s ^^ (length nodes - 1)) nodes"

section \<open>The intersection polynomial and its power basis\<close>

text \<open>
  \<^verbatim>\<open>eval_intersection_polynomial(nodes1, nodes2, t)\<close>. The source unpacks the result of
  \<^verbatim>\<open>evaluate_multi\<close> as exactly one row of two values; Python raises a
  \<^verbatim>\<open>ValueError\<close> when the unpacking does not fit.
\<close>

definition eval_intersection_polynomial :: "nodes \<Rightarrow> nodes \<Rightarrow> real \<Rightarrow> error + real" where
  "eval_intersection_polynomial nodes1 nodes2 t =
     (case evaluate_multi nodes2 [t] of
        [(x_val, y_val)] \<Rightarrow> evaluate nodes1 x_val y_val
      | _ \<Rightarrow> Inl (ValueError [Str ''unpack'']))"

text \<open>
  A statement after a call runs only when the call returned: an exception raised by
  \<^verbatim>\<open>eval_intersection_polynomial\<close> propagates out of the helpers below.
\<close>

definition on_value :: "error + 'a \<Rightarrow> ('a \<Rightarrow> error + 'b) \<Rightarrow> error + 'b" where
  "on_value m f = (case m of Inl e \<Rightarrow> Inl e | Inr v \<Rightarrow> f v)"

text \<open>
  The four helpers sample the intersection polynomial and combine the samples with the
  rows of a hard-coded matrix.
\<close>

definition to_power_basis11 :: "nodes \<Rightarrow> nodes \<Rightarrow> error + real list" where
  "to_power_basis11 nodes1 nodes2 =
     on_value (eval_intersection_polynomial nodes1 nodes2 0) (\<lambda>val0.
      on_value (eval_intersection_polynomial nodes1 nodes2 1) (\<lambda>val1.
      Inr [val0, - val0 + val1]))"

definition to_power_basis12 :: "nodes \<Rightarrow> nodes \<Rightarrow> error + real list" where
  "to_power_basis12 nodes1 nodes2 =
     on_value (eval_intersection_polynomial nodes1 nodes2 0) (\<lambda>val0.
      on_value (eval_intersection_polynomial nodes1 nodes2 (1/2)) (\<lambda>val1.
      on_value (eval_intersection_polynomial nodes1 nodes2 1) (\<lambda>val2.
      Inr [val0,
           - 3 * val0 + 4 * val1 - val2,
           2 * val0 - 4 * val1 + 2 * val2])))"

definition to_power_basis13 :: "nodes \<Rightarrow> nodes \<Rightarrow> error + real list" where
  "to_power_basis13 nodes1 nodes2 =
     on_value (eval_intersection_polynomial nodes1 nodes2 0) (\<lambda>val0.
      on_value (eval_intersection_polynomial nodes1 nodes2 (1/4)) (\<lambda>val1.
      on_value (eval_intersection_polynomial nodes1 nodes2 (3/4)) (\<lambda>val2.
      on_value (eval_intersection_polynomial nodes1 nodes2 1) (\<lambda>val3.
      Inr [3 * val0,
           - 19 * val0 + 24 * val1 - 8 * val2 + 3 * val3,
           32 * val0 - 56 * val1 + 40 * val2 - 16 * val3,
           - 16 * val0 + 32 * val1 - 32 * val2 + 16 * val3]))))"

definition to_power_basis22 :: "nodes \<Rightarrow> nodes \<Rightarrow> error + real list" where
  "to_power_basis22 nodes1 nodes2 =
     on_value (eval_intersection_polynomial nodes1 nodes2 0) (\<lambda>val0.
      on_value (eval_intersection_polynomial nodes1 nodes2 (1/4)) (\<lambda>val1.
      on_value (eval_intersection_polynomial nodes1 nodes2 (1/2)) (\<lambda>val2.
      on_value (eval_intersection_polynomial nodes1 nodes2 (3/4)) (\<lambda>val3.
      on_value (eval_intersection_polynomial nodes1 nodes2 1) (\<lambda>val4.
      Inr [3 * val0,
           - 25 * val0 + 48 * val1 - 36 * val2 + 16 * val3 - 3 * val4,
           70 * val0 - 208 * val1 + 228 * val2 - 112 * val3 + 22 * val4,
           - 80 * val0 + 288 * val1 - 384 * val2 + 224 * val3 - 48 * val4,
           32 * val0 - 128 * val1 + 192 * val2 - 128 * val3 + 32 * val4])))))"

text \<open>
  \<^verbatim>\<open>to_power_basis(nodes1, nodes2)\<close>. Every path of the nested \<^verbatim>\<open>if\<close> that does not
  return falls through to the final \<^verbatim>\<open>raise\<close>, whose arguments carry both degrees
  (\<^verbatim>\<open>num_nodes - 1\<close>, a Python integer: \<open>-1\<close> for an empty array).
\<close>

definition unsupported_pair :: "nat \<Rightarrow> nat \<Rightarrow> error" where
  "unsupported_pair num_nodes1 num_nodes2 =
     NotImplementedError
       [Str ''Degree 1'', Num (int num_nodes1 - 1), Str ''Degree2'', Num (int num_nodes2 - 1),
        Str ''Currently only supporting degree pairs 1-1, 1-2, 1-3 and 2-2'']"

definition to_power_basis :: "nodes \<Rightarrow> nodes \<Rightarrow> error + real list" where
  "to_power_basis nodes1 nodes2 =
     (let num_nodes1 = length nodes1; num_nodes2 = length nodes2 in
      if num_nodes1 = 2 then
        (if num_nodes2 = 2 then to_power_basis11 nodes1 nodes2
         else if num_nodes2 = 3 then to_power_basis12 nodes1 nodes2
         else if num_nodes2 = 4 then to_power_basis13 nodes1 nodes2
         else Inl (unsupported_pair num_nodes1 num_nodes2))
      else if num_nodes1 = 3 then
        (if num_nodes2 = 3 then to_power_basis22 nodes1 nodes2
         else Inl (unsupported_pair num_nodes1 num_nodes2))
      else Inl (unsupported_pair num_nodes1 num_nodes2))"

section \<open>Notions of the specification\<close>

text \<open>
  Horner evaluation of a coefficient array in ascending power order:
  \<open>c\<^sub>0 + t (c\<^sub>1 + t (c\<^sub>2 + \<dots>))\<close>.
\<close>

fun horner :: "real list \<Rightarrow> real \<Rightarrow> real" where
  "horner [] t = 0"
| "horner (c # cs) t = c + t * horner cs t"

text \<open>
  The \<open>6 \<times> 6\<close> matrix as the specification describes it for four nodes, entry by entry:
  \<open>delta\<close> is the node array minus the query point, rows 1 and 2 multiplied by 3; the
  block sits at rows 0 to 3 of columns 0 and 1, rows 1 to 4 of columns 2 and 3, and rows
  2 to 5 of columns 4 and 5; every other entry is zero.
\<close>

definition spec_delta :: "nodes \<Rightarrow> real \<Rightarrow> real \<Rightarrow> nat \<Rightarrow> nat \<Rightarrow> real" where
  "spec_delta nodes x y i j =
     (if i = 1 \<or> i = 2 then 3 else 1) *
     (if j = 0 then fst (nodes ! i) - x else snd (nodes ! i) - y)"

definition spec_sylvester_matrix :: "nodes \<Rightarrow> real \<Rightarrow> real \<Rightarrow> matrix" where
  "spec_sylvester_matrix nodes x y =
     map (\<lambda>i. map (\<lambda>j.
            if i < 4 \<and> j < 2 then spec_delta nodes x y i j
            else if 1 \<le> i \<and> i < 5 \<and> 2 \<le> j \<and> j < 4 then spec_delta nodes x y (i - 1) (j - 2)
            else if 2 \<le> i \<and> i < 6 \<and> 4 \<le> j \<and> j < 6 then spec_delta nodes x y (i - 2) (j - 4)
            else 0)
          [0..<6])
       [0..<6]"

text \<open>
  The sample parameters of each supported pair of node counts (the arguments the four
  helpers pass to \<^const>\<open>eval_intersection_polynomial\<close>), and the factor the helpers leave
  in the coefficients: the comments of \<^verbatim>\<open>_to_power_basis13\<close> and \<^verbatim>\<open>_to_power_basis22\<close>
  give the inverse Vandermonde matrix as one third of the integer matrix that is applied.
\<close>

definition sample_points :: "nat \<Rightarrow> nat \<Rightarrow> real list" where
  "sample_points num_nodes1 num_nodes2 =
     (if num_nodes1 = 2 \<and> num_nodes2 = 2 then [0, 1]
      else if num_nodes1 = 2 \<and> num_nodes2 = 3 then [0, 1/2, 1]
      else if num_nodes1 = 2 \<and> num_nodes2 = 4 then [0, 1/4, 3/4, 1]
      else if num_nodes1 = 3 \<and> num_nodes2 = 3 then [0, 1/4, 1/2, 3/4, 1]
      else [])"

definition coefficient_scale :: "nat \<Rightarrow> nat \<Rightarrow> real" where
  "coefficient_scale num_nodes1 num_nodes2 =
     (if (num_nodes1 = 2 \<and> num_nodes2 = 4) \<or> (num_nodes1 = 3 \<and> num_nodes2 = 3) then 3 else 1)"

text \<open>
  The pairs of node counts that \<^const>\<open>to_power_basis\<close> dispatches to a helper: degree
  pairs 1-1, 1-2, 1-3 and 2-2.
\<close>

definition supported_pair :: "nat \<Rightarrow> nat \<Rightarrow> bool" where
  "supported_pair num_nodes1 num_nodes2 \<longleftrightarrow>
     (num_nodes1 = 2 \<and> (num_nodes2 = 2 \<or> num_nodes2 = 3 \<or> num_nodes2 = 4)) \<or>
     (num_nodes1 = 3 \<and> num_nodes2 = 3)"

section \<open>Determinants of small matrices\<close>

text \<open>
  Closed forms of \<^const>\<open>det\<close> for the sizes used, and its expansion along the first row
  for sizes 4 to 6 with the minors written out.
\<close>

lemma det2: "det [[a, b], [c, d]] = a * d - b * c"
  by (simp add: upt_rec)

lemma det3: "det [[a, b, c], [d, e, f], [g, h, i]] = a * (e * i - f * h) - b * (d * i - f * g) + c * (d * h - e * g)"
  by (simp add: upt_rec eval_nat_numeral algebra_simps)

lemma det4_row: "det [[a0, a1, a2, a3], [b0, b1, b2, b3], [c0, c1, c2, c3], [d0, d1, d2, d3]] =
    a0 * det [[b1, b2, b3], [c1, c2, c3], [d1, d2, d3]]
  - a1 * det [[b0, b2, b3], [c0, c2, c3], [d0, d2, d3]]
  + a2 * det [[b0, b1, b3], [c0, c1, c3], [d0, d1, d3]]
  - a3 * det [[b0, b1, b2], [c0, c1, c2], [d0, d1, d2]]"
  apply (subst det.simps)
  apply (simp del: det.simps add: upt_rec eval_nat_numeral)
  done

lemma det5_row: "det [[a0, a1, a2, a3, a4], [b0, b1, b2, b3, b4], [c0, c1, c2, c3, c4], [d0, d1, d2, d3, d4], [e0, e1, e2, e3, e4]] =
    a0 * det [[b1, b2, b3, b4], [c1, c2, c3, c4], [d1, d2, d3, d4], [e1, e2, e3, e4]]
  - a1 * det [[b0, b2, b3, b4], [c0, c2, c3, c4], [d0, d2, d3, d4], [e0, e2, e3, e4]]
  + a2 * det [[b0, b1, b3, b4], [c0, c1, c3, c4], [d0, d1, d3, d4], [e0, e1, e3, e4]]
  - a3 * det [[b0, b1, b2, b4], [c0, c1, c2, c4], [d0, d1, d2, d4], [e0, e1, e2, e4]]
  + a4 * det [[b0, b1, b2, b3], [c0, c1, c2, c3], [d0, d1, d2, d3], [e0, e1, e2, e3]]"
  apply (subst det.simps)
  apply (simp del: det.simps add: upt_rec eval_nat_numeral)
  done

lemma det6_row: "det [[a0, a1, a2, a3, a4, a5], [b0, b1, b2, b3, b4, b5], [c0, c1, c2, c3, c4, c5],
                      [d0, d1, d2, d3, d4, d5], [e0, e1, e2, e3, e4, e5], [f0, f1, f2, f3, f4, f5]] =
    a0 * det [[b1, b2, b3, b4, b5], [c1, c2, c3, c4, c5], [d1, d2, d3, d4, d5], [e1, e2, e3, e4, e5], [f1, f2, f3, f4, f5]]
  - a1 * det [[b0, b2, b3, b4, b5], [c0, c2, c3, c4, c5], [d0, d2, d3, d4, d5], [e0, e2, e3, e4, e5], [f0, f2, f3, f4, f5]]
  + a2 * det [[b0, b1, b3, b4, b5], [c0, c1, c3, c4, c5], [d0, d1, d3, d4, d5], [e0, e1, e3, e4, e5], [f0, f1, f3, f4, f5]]
  - a3 * det [[b0, b1, b2, b4, b5], [c0, c1, c2, c4, c5], [d0, d1, d2, d4, d5], [e0, e1, e2, e4, e5], [f0, f1, f2, f4, f5]]
  + a4 * det [[b0, b1, b2, b3, b5], [c0, c1, c2, c3, c5], [d0, d1, d2, d3, d5], [e0, e1, e2, e3, e5], [f0, f1, f2, f3, f5]]
  - a5 * det [[b0, b1, b2, b3, b4], [c0, c1, c2, c3, c4], [d0, d1, d2, d3, d4], [e0, e1, e2, e3, e4], [f0, f1, f2, f3, f4]]"
  apply (subst det.simps)
  apply (simp del: det.simps add: upt_rec eval_nat_numeral)
  done

lemmas det_rows = det2 det3 det4_row det5_row det6_row

declare det.simps(2) [simp del]

text \<open>The matrix that \<^const>\<open>evaluate3\<close> builds from four nodes.\<close>

lemma zeros_6_6:
  "zeros 6 6 = [[0,0,0,0,0,0],[0,0,0,0,0,0],[0,0,0,0,0,0],[0,0,0,0,0,0],[0,0,0,0,0,0],[0,0,0,0,0,0]]"
  by (simp add: zeros_def eval_nat_numeral)

lemma scale_rows_4:
  "scale_rows 1 3 3 [[a0, b0], [a1, b1], [a2, b2], [a3, b3]] =
     [[a0, b0], [a1 * 3, b1 * 3], [a2 * 3, b2 * 3], [a3, b3]]"
  by (simp add: scale_rows_def eval_nat_numeral)

lemma assign_block_0_0:
  "assign_block 0 0 [[a0, b0], [a1, b1], [a2, b2], [a3, b3]]
     [[m00,m01,m02,m03,m04,m05],[m10,m11,m12,m13,m14,m15],[m20,m21,m22,m23,m24,m25],
      [m30,m31,m32,m33,m34,m35],[m40,m41,m42,m43,m44,m45],[m50,m51,m52,m53,m54,m55]] =
     [[a0,b0,m02,m03,m04,m05],[a1,b1,m12,m13,m14,m15],[a2,b2,m22,m23,m24,m25],
      [a3,b3,m32,m33,m34,m35],[m40,m41,m42,m43,m44,m45],[m50,m51,m52,m53,m54,m55]]"
  by (simp add: assign_block_def eval_nat_numeral)

lemma assign_block_1_2:
  "assign_block 1 2 [[a0, b0], [a1, b1], [a2, b2], [a3, b3]]
     [[m00,m01,m02,m03,m04,m05],[m10,m11,m12,m13,m14,m15],[m20,m21,m22,m23,m24,m25],
      [m30,m31,m32,m33,m34,m35],[m40,m41,m42,m43,m44,m45],[m50,m51,m52,m53,m54,m55]] =
     [[m00,m01,m02,m03,m04,m05],[m10,m11,a0,b0,m14,m15],[m20,m21,a1,b1,m24,m25],
      [m30,m31,a2,b2,m34,m35],[m40,m41,a3,b3,m44,m45],[m50,m51,m52,m53,m54,m55]]"
  by (simp add: assign_block_def eval_nat_numeral)

lemma assign_block_2_4:
  "assign_block 2 4 [[a0, b0], [a1, b1], [a2, b2], [a3, b3]]
     [[m00,m01,m02,m03,m04,m05],[m10,m11,m12,m13,m14,m15],[m20,m21,m22,m23,m24,m25],
      [m30,m31,m32,m33,m34,m35],[m40,m41,m42,m43,m44,m45],[m50,m51,m52,m53,m54,m55]] =
     [[m00,m01,m02,m03,m04,m05],[m10,m11,m12,m13,m14,m15],[m20,m21,m22,m23,a0,b0],
      [m30,m31,m32,m33,a1,b1],[m40,m41,m42,m43,a2,b2],[m50,m51,m52,m53,a3,b3]]"
  by (simp add: assign_block_def eval_nat_numeral)

lemma evaluate3_matrix:
  "evaluate3 [(x0,y0),(x1,y1),(x2,y2),(x3,y3)] x y =
     det [[x0 - x, y0 - y, 0, 0, 0, 0],
          [(x1 - x) * 3, (y1 - y) * 3, x0 - x, y0 - y, 0, 0],
          [(x2 - x) * 3, (y2 - y) * 3, (x1 - x) * 3, (y1 - y) * 3, x0 - x, y0 - y],
          [x3 - x, y3 - y, (x2 - x) * 3, (y2 - y) * 3, (x1 - x) * 3, (y1 - y) * 3],
          [0, 0, x3 - x, y3 - y, (x2 - x) * 3, (y2 - y) * 3],
          [0, 0, 0, 0, x3 - x, y3 - y]]"
  by (simp only: evaluate3_def Let_def list.map split_conv zeros_6_6 scale_rows_4 assign_block_0_0 assign_block_1_2 assign_block_2_4)

text \<open>
  Multiplying the matrix from the left by the row
  \<open>(u\<^sup>5, u\<^sup>4 t, u\<^sup>3 t\<^sup>2, u\<^sup>2 t\<^sup>3, u t\<^sup>4, t\<^sup>5)\<close> gives multiples of the two cubics
  \<open>P\<close> and \<open>Q\<close> in every column; by the cofactors of the last row, \<open>t\<^sup>5\<close> times the
  determinant is a combination of \<open>P\<close> and \<open>Q\<close>.
\<close>

lemma cofactor_identity:
  fixes a0 a1 a2 a3 b0 b1 b2 b3 u t :: real
  defines "P \<equiv> a0 * u^3 + a1 * u^2 * t + a2 * u * t^2 + a3 * t^3"
  defines "Q \<equiv> b0 * u^3 + b1 * u^2 * t + b2 * u * t^2 + b3 * t^3"
  shows "t^5 * det [[a0, b0, 0, 0, 0, 0],
          [a1, b1, a0, b0, 0, 0],
          [a2, b2, a1, b1, a0, b0],
          [a3, b3, a2, b2, a1, b1],
          [0, 0, a3, b3, a2, b2],
          [0, 0, 0, 0, a3, b3]] =
     P * (- (u^2 * det [[b0, 0, 0, 0, 0], [b1, a0, b0, 0, 0], [b2, a1, b1, a0, b0], [b3, a2, b2, a1, b1], [0, a3, b3, a2, b2]])
          - u * t * det [[a0, b0, 0, 0, 0], [a1, b1, b0, 0, 0], [a2, b2, b1, a0, b0], [a3, b3, b2, a1, b1], [0, 0, b3, a2, b2]]
          - t^2 * det [[a0, b0, 0, 0, 0], [a1, b1, a0, b0, 0], [a2, b2, a1, b1, b0], [a3, b3, a2, b2, b1], [0, 0, a3, b3, b2]])
   + Q * (u^2 * det [[a0, 0, 0, 0, 0], [a1, a0, b0, 0, 0], [a2, a1, b1, a0, b0], [a3, a2, b2, a1, b1], [0, a3, b3, a2, b2]]
          + u * t * det [[a0, b0, 0, 0, 0], [a1, b1, a0, 0, 0], [a2, b2, a1, a0, b0], [a3, b3, a2, a1, b1], [0, 0, a3, a2, b2]]
          + t^2 * det [[a0, b0, 0, 0, 0], [a1, b1, a0, b0, 0], [a2, b2, a1, b1, a0], [a3, b3, a2, b2, a1], [0, 0, a3, b3, a2]])"
  unfolding P_def Q_def
  apply (simp only: det_rows)
  apply (simp add: algebra_simps power2_eq_square power3_eq_cube eval_nat_numeral)
  done

lemma sylvester_det_zero:
  fixes a0 a1 a2 a3 b0 b1 b2 b3 u t :: real
  assumes P: "a0 * u^3 + a1 * u^2 * t + a2 * u * t^2 + a3 * t^3 = 0"
    and Q: "b0 * u^3 + b1 * u^2 * t + b2 * u * t^2 + b3 * t^3 = 0"
    and ut: "u + t = 1"
  shows "det [[a0, b0, 0, 0, 0, 0],
          [a1, b1, a0, b0, 0, 0],
          [a2, b2, a1, b1, a0, b0],
          [a3, b3, a2, b2, a1, b1],
          [0, 0, a3, b3, a2, b2],
          [0, 0, 0, 0, a3, b3]] = 0"
proof (cases "t = 0")
  case True
  with ut have "u = 1" by simp
  with True P Q have "a0 = 0" "b0 = 0" by simp_all
  then show ?thesis by (simp add: det6_row)
next
  case False
  have "t^5 * det [[a0, b0, 0, 0, 0, 0],
          [a1, b1, a0, b0, 0, 0],
          [a2, b2, a1, b1, a0, b0],
          [a3, b3, a2, b2, a1, b1],
          [0, 0, a3, b3, a2, b2],
          [0, 0, 0, 0, a3, b3]] = 0"
    by (simp only: cofactor_identity [where u = u] P Q mult_zero_left add_0_left)
  with False show ?thesis by simp
qed

section \<open>The curve evaluation at two, three and four nodes\<close>

lemma evaluate_multi2:
  "evaluate_multi [(x0, y0), (x1, y1)] [t] = [((1 - t) * x0 + t * x1, (1 - t) * y0 + t * y1)]"
  by (simp add: evaluate_multi_def bernstein_def upt_rec)

lemma evaluate_multi3:
  "evaluate_multi [(x0, y0), (x1, y1), (x2, y2)] [t] =
     [((1 - t)^2 * x0 + 2 * (1 - t) * t * x1 + t^2 * x2,
       (1 - t)^2 * y0 + 2 * (1 - t) * t * y1 + t^2 * y2)]"
  by (simp add: evaluate_multi_def bernstein_def upt_rec eval_nat_numeral)

lemma evaluate_multi4:
  "evaluate_multi [(x0, y0), (x1, y1), (x2, y2), (x3, y3)] [t] =
     [((1 - t)^3 * x0 + 3 * (1 - t)^2 * t * x1 + 3 * (1 - t) * t^2 * x2 + t^3 * x3,
       (1 - t)^3 * y0 + 3 * (1 - t)^2 * t * y1 + 3 * (1 - t) * t^2 * y2 + t^3 * y3)]"
  by (simp add: evaluate_multi_def bernstein_def upt_rec eval_nat_numeral)

lemma bernstein3_sum: "(1 - t)^3 + 3 * (1 - t)^2 * t + 3 * (1 - t) * t^2 + t^3 = (1::real)"
  by algebra

lemma cubic_minus_position:
  fixes x0 x1 x2 x3 t :: real
  defines "X \<equiv> (1 - t)^3 * x0 + 3 * (1 - t)^2 * t * x1 + 3 * (1 - t) * t^2 * x2 + t^3 * x3"
  shows "(x0 - X) * (1 - t)^3 + (x1 - X) * 3 * (1 - t)^2 * t + (x2 - X) * 3 * (1 - t) * t^2 + (x3 - X) * t^3 = 0"
proof -
  have "(x0 - X) * (1 - t)^3 + (x1 - X) * 3 * (1 - t)^2 * t + (x2 - X) * 3 * (1 - t) * t^2 + (x3 - X) * t^3
      = X - X * ((1 - t)^3 + 3 * (1 - t)^2 * t + 3 * (1 - t) * t^2 + t^3)"
    unfolding X_def by (simp add: algebra_simps)
  also have "\<dots> = X - X * 1" by (simp only: bernstein3_sum)
  finally show ?thesis by simp
qed

text \<open>
  The Bernstein form and De Casteljau's scheme give the same point for the node counts
  that the module handles.
\<close>

lemma de_casteljau_two_nodes:
  "de_casteljau [(x0, y0), (x1, y1)] t = evaluate_multi [(x0, y0), (x1, y1)] [t]"
  unfolding evaluate_multi2 by (simp add: de_casteljau_def eval_nat_numeral)

lemma de_casteljau_three_nodes:
  "de_casteljau [(x0, y0), (x1, y1), (x2, y2)] t =
     evaluate_multi [(x0, y0), (x1, y1), (x2, y2)] [t]"
  unfolding evaluate_multi3 by (simp add: de_casteljau_def eval_nat_numeral; algebra)

lemma de_casteljau_four_nodes:
  "de_casteljau [(x0, y0), (x1, y1), (x2, y2), (x3, y3)] t =
     evaluate_multi [(x0, y0), (x1, y1), (x2, y2), (x3, y3)] [t]"
  unfolding evaluate_multi4 by (simp add: de_casteljau_def eval_nat_numeral; algebra)

section \<open>The implicit curve contains the parametric curve\<close>

lemma nodes2E:
  "length (nodes :: nodes) = 2 \<Longrightarrow> \<exists>x0 y0 x1 y1. nodes = [(x0, y0), (x1, y1)]"
  by (cases nodes; cases "tl nodes"; cases "tl (tl nodes)") auto

lemma nodes3E:
  "length (nodes :: nodes) = 3 \<Longrightarrow> \<exists>x0 y0 x1 y1 x2 y2. nodes = [(x0, y0), (x1, y1), (x2, y2)]"
  by (cases nodes; cases "tl nodes"; cases "tl (tl nodes)"; cases "tl (tl (tl nodes))") auto

lemma nodes4E:
  "length (nodes :: nodes) = 4 \<Longrightarrow>
     \<exists>x0 y0 x1 y1 x2 y2 x3 y3. nodes = [(x0, y0), (x1, y1), (x2, y2), (x3, y3)]"
  by (cases nodes; cases "tl nodes"; cases "tl (tl nodes)"; cases "tl (tl (tl nodes))";
      cases "tl (tl (tl (tl nodes)))") auto

lemma evaluate_on_line:
  "evaluate [(x0, y0), (x1, y1)] ((1 - t) * x0 + t * x1) ((1 - t) * y0 + t * y1) = Inr 0"
  by (simp add: evaluate_def; algebra)

lemma evaluate_on_conic:
  "evaluate [(x0, y0), (x1, y1), (x2, y2)]
     ((1 - t)^2 * x0 + 2 * (1 - t) * t * x1 + t^2 * x2)
     ((1 - t)^2 * y0 + 2 * (1 - t) * t * y1 + t^2 * y2) = Inr 0"
  by (simp add: evaluate_def Let_def; algebra)

lemma evaluate_on_cubic:
  "evaluate [(x0, y0), (x1, y1), (x2, y2), (x3, y3)]
     ((1 - t)^3 * x0 + 3 * (1 - t)^2 * t * x1 + 3 * (1 - t) * t^2 * x2 + t^3 * x3)
     ((1 - t)^3 * y0 + 3 * (1 - t)^2 * t * y1 + 3 * (1 - t) * t^2 * y2 + t^3 * y3) = Inr 0"
proof -
  have "evaluate3 [(x0, y0), (x1, y1), (x2, y2), (x3, y3)]
     ((1 - t)^3 * x0 + 3 * (1 - t)^2 * t * x1 + 3 * (1 - t) * t^2 * x2 + t^3 * x3)
     ((1 - t)^3 * y0 + 3 * (1 - t)^2 * t * y1 + 3 * (1 - t) * t^2 * y2 + t^3 * y3) = 0"
    unfolding evaluate3_matrix
    by (rule sylvester_det_zero [where u = "1 - t" and t = t])
       (rule cubic_minus_position, rule cubic_minus_position, simp)
  then show ?thesis
    unfolding evaluate_def Let_def by simp
qed

text \<open>
  Claim C1. For every node array with 2, 3 or 4 rows and every parameter \<open>t\<close> (in
  particular every \<open>t\<close> in \<open>[0, 1]\<close>), the implicit polynomial vanishes at the curve's own
  position: with \<open>(x, y)\<close> the Bernstein-basis evaluation of the nodes at \<open>t\<close>,
  \<open>evaluate nodes x y\<close> returns 0, in exact arithmetic.
\<close>

theorem evaluate_vanishes_on_curve:
  assumes "length nodes = 2 \<or> length nodes = 3 \<or> length nodes = 4"
  shows "\<exists>x y. evaluate_multi nodes [t] = [(x, y)] \<and> evaluate nodes x y = Inr 0"
proof -
  consider "length nodes = 2" | "length nodes = 3" | "length nodes = 4"
    using assms by blast
  then show ?thesis
  proof cases
    case 1
    then obtain x0 y0 x1 y1 where "nodes = [(x0, y0), (x1, y1)]"
      using nodes2E by blast
    then show ?thesis
      using evaluate_multi2 evaluate_on_line by blast
  next
    case 2
    then obtain x0 y0 x1 y1 x2 y2 where "nodes = [(x0, y0), (x1, y1), (x2, y2)]"
      using nodes3E by blast
    then show ?thesis
      using evaluate_multi3 evaluate_on_conic by blast
  next
    case 3
    then obtain x0 y0 x1 y1 x2 y2 x3 y3
      where "nodes = [(x0, y0), (x1, y1), (x2, y2), (x3, y3)]"
      using nodes4E by blast
    then show ?thesis
      using evaluate_multi4 evaluate_on_cubic by blast
  qed
qed

theorem evaluate_vanishes_on_curve_witness:
  "evaluate_multi [(0, 0), (1, 2), (3, 1), (4, 4)] [1 / 2] = [(2, 13 / 8)] \<and>
   evaluate [(0, 0), (1, 2), (3, 1), (4, 4)] 2 (13 / 8) = Inr 0"
proof -
  have len: "length [(0, 0), (1, 2), (3, 1), (4 :: real, 4 :: real)] = 2 \<or>
             length [(0, 0), (1, 2), (3, 1), (4 :: real, 4 :: real)] = 3 \<or>
             length [(0, 0), (1, 2), (3, 1), (4 :: real, 4 :: real)] = 4"
    by simp
  have pos: "evaluate_multi [(0, 0), (1, 2), (3, 1), (4, 4)] [1 / 2] = [(2, 13 / 8)]"
    by (simp add: evaluate_multi4 power2_eq_square power3_eq_cube)
  from evaluate_vanishes_on_curve [OF len, of "1 / 2"] obtain x y
    where at: "evaluate_multi [(0, 0), (1, 2), (3, 1), (4, 4)] [1 / 2] = [(x, y)]"
      and zero: "evaluate [(0, 0), (1, 2), (3, 1), (4, 4)] x y = Inr 0"
    by blast
  have "[(x, y)] = [(2, 13 / 8)]"
    using at [symmetric] pos by (rule trans)
  then have "x = 2" and "y = 13 / 8"
    by blast+
  with zero pos show ?thesis
    by blast
qed

section \<open>The degree-3 evaluator and the matrix of the specification\<close>

lemma upt_0_6: "[0..<6] = [0, 1, 2, 3, 4, 5]"
  by (simp add: upt_rec)

lemma spec_sylvester_matrix_4:
  "spec_sylvester_matrix [(x0,y0),(x1,y1),(x2,y2),(x3,y3)] x y =
     [[x0 - x, y0 - y, 0, 0, 0, 0],
      [(x1 - x) * 3, (y1 - y) * 3, x0 - x, y0 - y, 0, 0],
      [(x2 - x) * 3, (y2 - y) * 3, (x1 - x) * 3, (y1 - y) * 3, x0 - x, y0 - y],
      [x3 - x, y3 - y, (x2 - x) * 3, (y2 - y) * 3, (x1 - x) * 3, (y1 - y) * 3],
      [0, 0, x3 - x, y3 - y, (x2 - x) * 3, (y2 - y) * 3],
      [0, 0, 0, 0, x3 - x, y3 - y]]"
  by (simp add: spec_sylvester_matrix_def spec_delta_def upt_0_6)

text \<open>
  Claim C4. For every node array with 4 rows and every query point \<open>(x, y)\<close>,
  \<open>evaluate\<close> returns the determinant of the \<open>6 \<times> 6\<close> matrix the specification describes:
  the nodes minus the query point, rows 1 and 2 times 3, placed at rows 0-3 of columns
  0-1, rows 1-4 of columns 2-3 and rows 2-5 of columns 4-5 of a zero matrix.
\<close>

theorem evaluate_degree3_is_spec_determinant:
  assumes "length nodes = 4"
  shows "evaluate nodes x y = Inr (det (spec_sylvester_matrix nodes x y))"
proof -
  from assms obtain x0 y0 x1 y1 x2 y2 x3 y3
    where nodes: "nodes = [(x0, y0), (x1, y1), (x2, y2), (x3, y3)]"
    using nodes4E by blast
  have "evaluate nodes x y = Inr (evaluate3 nodes x y)"
    using assms by (simp add: evaluate_def)
  then show ?thesis
    unfolding nodes by (simp only: evaluate3_matrix spec_sylvester_matrix_4)
qed

theorem evaluate_degree3_is_spec_determinant_witness:
  "evaluate [(0, 0), (1, 2), (3, 1), (4, 4)] 1 1 =
     Inr (det (spec_sylvester_matrix [(0, 0), (1, 2), (3, 1), (4, 4)] 1 1)) \<and>
   spec_sylvester_matrix [(0, 0), (1, 2), (3, 1), (4, 4)] 1 1 =
     [[-1, -1, 0, 0, 0, 0], [0, 3, -1, -1, 0, 0], [6, 0, 0, 3, -1, -1],
      [3, 3, 6, 0, 0, 3], [0, 0, 3, 3, 6, 0], [0, 0, 0, 0, 3, 3]]"
  using evaluate_degree3_is_spec_determinant [of "[(0, 0), (1, 2), (3, 1), (4, 4)]" 1 1]
  by (simp add: spec_sylvester_matrix_4)

section \<open>The degree-2 closed form and the 4 by 4 matrix\<close>

lemma sylvester4_det:
  fixes a b c d e f :: real
  shows "det [[a, b, c, 0], [0, a, b, c], [d, e, f, 0], [0, d, e, f]] =
         a * (- e * (b * f - c * e) + f * (a * f - c * d)) +
         d * (b * (b * f - c * e) - c * (a * f - c * d))"
  by (simp only: det_rows) algebra

text \<open>
  Claim C5. For every node array with 3 rows and every query point, the closed form that
  \<open>evaluate\<close> computes, \<open>a (- e sub1 + f sub2) + d (b sub1 - c sub2)\<close> with
  \<open>sub1 = b f - c e\<close> and \<open>sub2 = a f - c d\<close>, is what the function returns and equals the
  determinant of the modified Sylvester matrix with rows \<open>[a,b,c,0]\<close>, \<open>[0,a,b,c]\<close>,
  \<open>[d,e,f,0]\<close>, \<open>[0,d,e,f]\<close>.
\<close>

theorem evaluate_degree2_is_sylvester_determinant:
  assumes "length nodes = 3"
  shows "let a = fst (nodes ! 0) - x; b = 2 * (fst (nodes ! 1) - x); c = fst (nodes ! 2) - x;
             d = snd (nodes ! 0) - y; e = 2 * (snd (nodes ! 1) - y); f = snd (nodes ! 2) - y;
             sub1 = b * f - c * e; sub2 = a * f - c * d
         in evaluate nodes x y = Inr (a * (- e * sub1 + f * sub2) + d * (b * sub1 - c * sub2)) \<and>
            a * (- e * sub1 + f * sub2) + d * (b * sub1 - c * sub2) =
              det [[a, b, c, 0], [0, a, b, c], [d, e, f, 0], [0, d, e, f]]"
  using assms by (simp add: evaluate_def Let_def sylvester4_det mult.commute)

theorem evaluate_degree2_is_sylvester_determinant_witness:
  "evaluate [(0, 0), (1, 2), (2, 0)] 1 0 = Inr (- 16) \<and>
   det [[-1, 0, 1, 0], [0, -1, 0, 1], [0, 4, 0, 0], [0, 0, 4, 0]] = - 16"
  using evaluate_degree2_is_sylvester_determinant [of "[(0, 0), (1, 2), (2, 0)]" 1 0]
  by (simp add: Let_def)

section \<open>Translation invariance\<close>

lemma evaluate_length_map:
  "length nodes \<noteq> 2 \<Longrightarrow> length nodes \<noteq> 3 \<Longrightarrow> length nodes \<noteq> 4 \<Longrightarrow>
     evaluate (map f nodes) x' y' = evaluate nodes x y"
  by (simp add: evaluate_def Let_def)

text \<open>
  Claim C10. \<open>evaluate\<close> is translation invariant: shifting every node and the query
  point by the same offset \<open>(dx, dy)\<close> does not change the result. (It holds for every
  node count: outside 2, 3 and 4 rows both sides are the same exception.)
\<close>

theorem evaluate_translation_invariant:
  "evaluate (map (\<lambda>(px, py). (px + dx, py + dy)) nodes) (x + dx) (y + dy) = evaluate nodes x y"
proof -
  consider "length nodes = 2" | "length nodes = 3" | "length nodes = 4"
    | "length nodes \<noteq> 2" "length nodes \<noteq> 3" "length nodes \<noteq> 4"
    by blast
  then show ?thesis
  proof cases
    case 1
    then obtain x0 y0 x1 y1 where "nodes = [(x0, y0), (x1, y1)]"
      using nodes2E by blast
    then show ?thesis by (simp add: evaluate_def)
  next
    case 2
    then obtain x0 y0 x1 y1 x2 y2 where "nodes = [(x0, y0), (x1, y1), (x2, y2)]"
      using nodes3E by blast
    then show ?thesis by (simp add: evaluate_def Let_def)
  next
    case 3
    then obtain x0 y0 x1 y1 x2 y2 x3 y3
      where "nodes = [(x0, y0), (x1, y1), (x2, y2), (x3, y3)]"
      using nodes4E by blast
    then show ?thesis by (simp add: evaluate_def evaluate3_matrix)
  next
    case 4
    then show ?thesis by (rule evaluate_length_map)
  qed
qed

section \<open>The exceptions of the evaluator\<close>

text \<open>
  Claim C7, as stated, fails: an array with no rows (neither 1 row nor more than 4) also
  raises, and the exception for 5 rows (degree 4) is the one for 6 rows (degree 5): its
  only argument is the fixed text below, which does not name the degree passed in.
\<close>

theorem evaluate_raises_counterexample:
  "evaluate [] 0 0 = Inl (NotImplementedError [Str ''Only degrees 1 and 2 supported'']) \<and>
   evaluate [(0, 0), (1, 1), (2, 0), (3, 1), (4, 0)] 0 0 =
     Inl (NotImplementedError [Str ''Only degrees 1 and 2 supported'']) \<and>
   evaluate [(0, 0), (1, 1), (2, 0), (3, 1), (4, 0), (5, 1)] 0 0 =
     Inl (NotImplementedError [Str ''Only degrees 1 and 2 supported''])"
  by (simp add: evaluate_def)

lemma node_count_cases:
  "n = 0 \<or> n = 1 \<or> n = 2 \<or> n = 3 \<or> n = 4 \<or> 4 < (n :: nat)"
  by arith

text \<open>
  Claim C7, amended. \<open>evaluate\<close> raises the \<open>ValueError\<close> "A point cannot be implicitized"
  exactly when the array has 1 row; it raises a \<open>NotImplementedError\<close> with one fixed
  argument, the same for every such input, exactly when the array has no rows or more
  than 4; it returns a value exactly when the array has 2, 3 or 4 rows.
\<close>

theorem evaluate_raises:
  "(evaluate nodes x y = Inl (ValueError [Str ''A point cannot be implicitized''])
      \<longleftrightarrow> length nodes = 1) \<and>
   (evaluate nodes x y = Inl (NotImplementedError [Str ''Only degrees 1 and 2 supported''])
      \<longleftrightarrow> length nodes = 0 \<or> 4 < length nodes) \<and>
   ((\<exists>v. evaluate nodes x y = Inr v)
      \<longleftrightarrow> length nodes = 2 \<or> length nodes = 3 \<or> length nodes = 4)"
  using node_count_cases [of "length nodes"]
  by (auto simp add: evaluate_def Let_def)

section \<open>The power-basis converter: dispatch, exceptions and sizes\<close>

text \<open>
  The sampler returns a value whenever the first curve has 2 or 3 nodes, so each helper
  returns its list of combinations of the samples.
\<close>

lemma eval_intersection_polynomial_returns:
  "length nodes1 = 2 \<or> length nodes1 = 3 \<Longrightarrow>
     \<exists>v. eval_intersection_polynomial nodes1 nodes2 t = Inr v"
  by (auto simp add: eval_intersection_polynomial_def evaluate_multi_def evaluate_def Let_def)

lemma eval_intersection_polynomial_value:
  assumes "length nodes1 = 2 \<or> length nodes1 = 3"
  obtains v where "eval_intersection_polynomial nodes1 nodes2 t = Inr v"
  using eval_intersection_polynomial_returns [OF assms] by blast

lemma to_power_basis_2_2:
  assumes "length nodes1 = 2" and "length nodes2 = 2"
  shows "\<exists>val0 val1.
           eval_intersection_polynomial nodes1 nodes2 0 = Inr val0 \<and>
           eval_intersection_polynomial nodes1 nodes2 1 = Inr val1 \<and>
           to_power_basis nodes1 nodes2 = Inr [val0, - val0 + val1]"
proof -
  have supp: "length nodes1 = 2 \<or> length nodes1 = 3"
    using assms(1) by simp
  obtain val0 where val0: "eval_intersection_polynomial nodes1 nodes2 0 = Inr val0"
    by (rule eval_intersection_polynomial_value [OF supp, of nodes2 "0"])
  obtain val1 where val1: "eval_intersection_polynomial nodes1 nodes2 1 = Inr val1"
    by (rule eval_intersection_polynomial_value [OF supp, of nodes2 "1"])
  show ?thesis
    using assms by (simp add: to_power_basis_def to_power_basis11_def on_value_def val0 val1)
qed

lemma to_power_basis_2_3:
  assumes "length nodes1 = 2" and "length nodes2 = 3"
  shows "\<exists>val0 val1 val2.
           eval_intersection_polynomial nodes1 nodes2 0 = Inr val0 \<and>
           eval_intersection_polynomial nodes1 nodes2 (1/2) = Inr val1 \<and>
           eval_intersection_polynomial nodes1 nodes2 1 = Inr val2 \<and>
           to_power_basis nodes1 nodes2 =
             Inr [val0, - 3 * val0 + 4 * val1 - val2, 2 * val0 - 4 * val1 + 2 * val2]"
proof -
  have supp: "length nodes1 = 2 \<or> length nodes1 = 3"
    using assms(1) by simp
  obtain val0 where val0: "eval_intersection_polynomial nodes1 nodes2 0 = Inr val0"
    by (rule eval_intersection_polynomial_value [OF supp, of nodes2 "0"])
  obtain val1 where val1: "eval_intersection_polynomial nodes1 nodes2 (1/2) = Inr val1"
    by (rule eval_intersection_polynomial_value [OF supp, of nodes2 "1/2"])
  obtain val2 where val2: "eval_intersection_polynomial nodes1 nodes2 1 = Inr val2"
    by (rule eval_intersection_polynomial_value [OF supp, of nodes2 "1"])
  show ?thesis
    using assms by (simp add: to_power_basis_def to_power_basis12_def on_value_def val0 val1 val2)
qed

lemma to_power_basis_2_4:
  assumes "length nodes1 = 2" and "length nodes2 = 4"
  shows "\<exists>val0 val1 val2 val3.
           eval_intersection_polynomial nodes1 nodes2 0 = Inr val0 \<and>
           eval_intersection_polynomial nodes1 nodes2 (1/4) = Inr val1 \<and>
           eval_intersection_polynomial nodes1 nodes2 (3/4) = Inr val2 \<and>
           eval_intersection_polynomial nodes1 nodes2 1 = Inr val3 \<and>
           to_power_basis nodes1 nodes2 =
             Inr [3 * val0,
                  - 19 * val0 + 24 * val1 - 8 * val2 + 3 * val3,
                  32 * val0 - 56 * val1 + 40 * val2 - 16 * val3,
                  - 16 * val0 + 32 * val1 - 32 * val2 + 16 * val3]"
proof -
  have supp: "length nodes1 = 2 \<or> length nodes1 = 3"
    using assms(1) by simp
  obtain val0 where val0: "eval_intersection_polynomial nodes1 nodes2 0 = Inr val0"
    by (rule eval_intersection_polynomial_value [OF supp, of nodes2 "0"])
  obtain val1 where val1: "eval_intersection_polynomial nodes1 nodes2 (1/4) = Inr val1"
    by (rule eval_intersection_polynomial_value [OF supp, of nodes2 "1/4"])
  obtain val2 where val2: "eval_intersection_polynomial nodes1 nodes2 (3/4) = Inr val2"
    by (rule eval_intersection_polynomial_value [OF supp, of nodes2 "3/4"])
  obtain val3 where val3: "eval_intersection_polynomial nodes1 nodes2 1 = Inr val3"
    by (rule eval_intersection_polynomial_value [OF supp, of nodes2 "1"])
  show ?thesis
    using assms
    by (simp add: to_power_basis_def to_power_basis13_def on_value_def val0 val1 val2 val3)
qed

lemma to_power_basis_3_3:
  assumes "length nodes1 = 3" and "length nodes2 = 3"
  shows "\<exists>val0 val1 val2 val3 val4.
           eval_intersection_polynomial nodes1 nodes2 0 = Inr val0 \<and>
           eval_intersection_polynomial nodes1 nodes2 (1/4) = Inr val1 \<and>
           eval_intersection_polynomial nodes1 nodes2 (1/2) = Inr val2 \<and>
           eval_intersection_polynomial nodes1 nodes2 (3/4) = Inr val3 \<and>
           eval_intersection_polynomial nodes1 nodes2 1 = Inr val4 \<and>
           to_power_basis nodes1 nodes2 =
             Inr [3 * val0,
                  - 25 * val0 + 48 * val1 - 36 * val2 + 16 * val3 - 3 * val4,
                  70 * val0 - 208 * val1 + 228 * val2 - 112 * val3 + 22 * val4,
                  - 80 * val0 + 288 * val1 - 384 * val2 + 224 * val3 - 48 * val4,
                  32 * val0 - 128 * val1 + 192 * val2 - 128 * val3 + 32 * val4]"
proof -
  have supp: "length nodes1 = 2 \<or> length nodes1 = 3"
    using assms(1) by simp
  obtain val0 where val0: "eval_intersection_polynomial nodes1 nodes2 0 = Inr val0"
    by (rule eval_intersection_polynomial_value [OF supp, of nodes2 "0"])
  obtain val1 where val1: "eval_intersection_polynomial nodes1 nodes2 (1/4) = Inr val1"
    by (rule eval_intersection_polynomial_value [OF supp, of nodes2 "1/4"])
  obtain val2 where val2: "eval_intersection_polynomial nodes1 nodes2 (1/2) = Inr val2"
    by (rule eval_intersection_polynomial_value [OF supp, of nodes2 "1/2"])
  obtain val3 where val3: "eval_intersection_polynomial nodes1 nodes2 (3/4) = Inr val3"
    by (rule eval_intersection_polynomial_value [OF supp, of nodes2 "3/4"])
  obtain val4 where val4: "eval_intersection_polynomial nodes1 nodes2 1 = Inr val4"
    by (rule eval_intersection_polynomial_value [OF supp, of nodes2 "1"])
  show ?thesis
    using assms
    by (simp add: to_power_basis_def to_power_basis22_def on_value_def val0 val1 val2 val3 val4)
qed

lemma to_power_basis_unsupported:
  "\<not> supported_pair (length nodes1) (length nodes2) \<Longrightarrow>
     to_power_basis nodes1 nodes2 = Inl (unsupported_pair (length nodes1) (length nodes2))"
  by (auto simp add: to_power_basis_def supported_pair_def Let_def)

lemma to_power_basis_supported:
  assumes "supported_pair (length nodes1) (length nodes2)"
  shows "\<exists>cs v0. to_power_basis nodes1 nodes2 = Inr cs \<and>
           length cs = (length nodes1 - 1) * (length nodes2 - 1) + 1 \<and>
           eval_intersection_polynomial nodes1 nodes2 0 = Inr v0 \<and>
           cs ! 0 = coefficient_scale (length nodes1) (length nodes2) * v0"
proof -
  consider "length nodes1 = 2" "length nodes2 = 2" | "length nodes1 = 2" "length nodes2 = 3"
    | "length nodes1 = 2" "length nodes2 = 4" | "length nodes1 = 3" "length nodes2 = 3"
    using assms unfolding supported_pair_def by blast
  then show ?thesis
  proof cases
    case 1
    with to_power_basis_2_2 [OF 1] show ?thesis
      by (auto simp add: coefficient_scale_def)
  next
    case 2
    with to_power_basis_2_3 [OF 2] show ?thesis
      by (auto simp add: coefficient_scale_def)
  next
    case 3
    with to_power_basis_2_4 [OF 3] show ?thesis
      by (auto simp add: coefficient_scale_def)
  next
    case 4
    with to_power_basis_3_3 [OF 4] show ?thesis
      by (auto simp add: coefficient_scale_def)
  qed
qed

text \<open>
  Claim C8. \<open>to_power_basis\<close> raises the \<open>NotImplementedError\<close> whose arguments carry both
  degrees exactly for the degree pairs outside 1-1, 1-2, 1-3 and 2-2 (the reversed pair of
  a degree-2 and a degree-1 curve among them), and returns a coefficient array for the
  four supported pairs.
\<close>

theorem to_power_basis_raises:
  "(to_power_basis nodes1 nodes2 =
      Inl (NotImplementedError
             [Str ''Degree 1'', Num (int (length nodes1) - 1),
              Str ''Degree2'', Num (int (length nodes2) - 1),
              Str ''Currently only supporting degree pairs 1-1, 1-2, 1-3 and 2-2''])
    \<longleftrightarrow> \<not> supported_pair (length nodes1) (length nodes2)) \<and>
   ((\<exists>cs. to_power_basis nodes1 nodes2 = Inr cs)
    \<longleftrightarrow> supported_pair (length nodes1) (length nodes2))"
proof (cases "supported_pair (length nodes1) (length nodes2)")
  case True
  then obtain cs where "to_power_basis nodes1 nodes2 = Inr cs"
    using to_power_basis_supported by blast
  with True show ?thesis by simp
next
  case False
  then show ?thesis
    by (simp add: to_power_basis_unsupported unsupported_pair_def)
qed

theorem to_power_basis_raises_witness:
  "to_power_basis [(0, 0), (1, 1), (2, 0)] [(0, 1), (1, 0)] =
      Inl (NotImplementedError
             [Str ''Degree 1'', Num 2, Str ''Degree2'', Num 1,
              Str ''Currently only supporting degree pairs 1-1, 1-2, 1-3 and 2-2''])"
  using to_power_basis_raises [of "[(0, 0), (1, 1), (2, 0)]" "[(0, 1), (1, 0)]"]
  by (simp add: supported_pair_def)

text \<open>
  Claim C9. For \<open>nodes1 = [[0,0],[1,1]]\<close> and \<open>nodes2 = [[0,1],[1,0]]\<close>, \<open>to_power_basis\<close>
  returns the two coefficients \<open>[1, -2]\<close> of a polynomial of degree 1 whose only root,
  \<open>- c\<^sub>0 / c\<^sub>1\<close>, is \<open>1/2\<close>.
\<close>

theorem to_power_basis_crossing_lines:
  "to_power_basis [(0, 0), (1, 1)] [(0, 1), (1, 0)] = Inr [1, - 2] \<and>
   - 1 / (- 2) = (1 / 2 :: real) \<and>
   (horner [1, - 2] t = 0 \<longleftrightarrow> t = 1 / 2)"
  by (auto simp add: to_power_basis_def to_power_basis11_def on_value_def
        eval_intersection_polynomial_def evaluate_multi2 evaluate_def)

section \<open>Interpolation at the sample parameters\<close>

text \<open>
  The hard-coded matrices recover a polynomial of the expected degree from its samples:
  exactly for degrees 1 and 2, up to the factor 3 for degrees 3 and 4.
\<close>

lemma cubic_interpolation:
  fixes k0 k1 k2 k3 t :: real
  defines "p \<equiv> \<lambda>s. k0 + k1 * s + k2 * s^2 + k3 * s^3"
  shows "horner [3 * p 0,
                 - 19 * p 0 + 24 * p (1/4) - 8 * p (3/4) + 3 * p 1,
                 32 * p 0 - 56 * p (1/4) + 40 * p (3/4) - 16 * p 1,
                 - 16 * p 0 + 32 * p (1/4) - 32 * p (3/4) + 16 * p 1] t = 3 * p t"
  unfolding p_def by (simp add: power2_eq_square power3_eq_cube algebra_simps)

lemma quartic_interpolation:
  fixes k0 k1 k2 k3 k4 t :: real
  defines "p \<equiv> \<lambda>s. k0 + k1 * s + k2 * s^2 + k3 * s^3 + k4 * s^4"
  shows "horner [3 * p 0,
                 - 25 * p 0 + 48 * p (1/4) - 36 * p (1/2) + 16 * p (3/4) - 3 * p 1,
                 70 * p 0 - 208 * p (1/4) + 228 * p (1/2) - 112 * p (3/4) + 22 * p 1,
                 - 80 * p 0 + 288 * p (1/4) - 384 * p (1/2) + 224 * p (3/4) - 48 * p 1,
                 32 * p 0 - 128 * p (1/4) + 192 * p (1/2) - 128 * p (3/4) + 32 * p 1] t = 3 * p t"
  unfolding p_def by (simp add: power2_eq_square power3_eq_cube power4_eq_xxxx algebra_simps)

lemma quadratic_interpolation:
  fixes k0 k1 k2 t :: real
  defines "p \<equiv> \<lambda>s. k0 + k1 * s + k2 * s^2"
  shows "horner [p 0, - 3 * p 0 + 4 * p (1/2) - p 1, 2 * p 0 - 4 * p (1/2) + 2 * p 1] t = p t"
  unfolding p_def by (simp add: power2_eq_square algebra_simps)

lemma linear_interpolation:
  fixes k0 k1 t :: real
  defines "p \<equiv> \<lambda>s. k0 + k1 * s"
  shows "horner [p 0, - p 0 + p 1] t = p t"
  unfolding p_def by (simp add: algebra_simps)

lemma cubic_samples:
  fixes p :: "real \<Rightarrow> real"
  assumes "\<And>s. p s = k0 + k1 * s + k2 * s^2 + k3 * s^3"
  shows "horner [3 * p 0,
                 - 19 * p 0 + 24 * p (1/4) - 8 * p (3/4) + 3 * p 1,
                 32 * p 0 - 56 * p (1/4) + 40 * p (3/4) - 16 * p 1,
                 - 16 * p 0 + 32 * p (1/4) - 32 * p (3/4) + 16 * p 1] t = 3 * p t"
  unfolding assms by (rule cubic_interpolation)

lemma quartic_samples:
  fixes p :: "real \<Rightarrow> real"
  assumes "\<And>s. p s = k0 + k1 * s + k2 * s^2 + k3 * s^3 + k4 * s^4"
  shows "horner [3 * p 0,
                 - 25 * p 0 + 48 * p (1/4) - 36 * p (1/2) + 16 * p (3/4) - 3 * p 1,
                 70 * p 0 - 208 * p (1/4) + 228 * p (1/2) - 112 * p (3/4) + 22 * p 1,
                 - 80 * p 0 + 288 * p (1/4) - 384 * p (1/2) + 224 * p (3/4) - 48 * p 1,
                 32 * p 0 - 128 * p (1/4) + 192 * p (1/2) - 128 * p (3/4) + 32 * p 1] t = 3 * p t"
  unfolding assms by (rule quartic_interpolation)

lemma linear_samples:
  fixes p :: "real \<Rightarrow> real"
  assumes "\<And>s. p s = k0 + k1 * s"
  shows "horner [p 0, - p 0 + p 1] t = p t"
  unfolding assms by (rule linear_interpolation)

lemma quadratic_samples:
  fixes p :: "real \<Rightarrow> real"
  assumes "\<And>s. p s = k0 + k1 * s + k2 * s^2"
  shows "horner [p 0, - 3 * p 0 + 4 * p (1/2) - p 1, 2 * p 0 - 4 * p (1/2) + 2 * p 1] t = p t"
  unfolding assms by (rule quadratic_interpolation)

text \<open>
  Horner evaluation is the sum of the entries times ascending powers of the argument:
  entry \<open>k\<close> of the array is the coefficient of \<open>t\<^sup>k\<close>.
\<close>

lemma horner_sum: "horner cs t = (\<Sum>k<length cs. cs ! k * t ^ k)"
proof (induction cs)
  case Nil
  show ?case by simp
next
  case (Cons c cs)
  have "(\<Sum>k<length (c # cs). (c # cs) ! k * t ^ k) =
          c + (\<Sum>k<length cs. cs ! k * t ^ Suc k)"
    by (simp del: sum.lessThan_Suc add: sum.lessThan_Suc_shift)
  also have "\<dots> = c + t * (\<Sum>k<length cs. cs ! k * t ^ k)"
    by (simp add: sum_distrib_left mult.assoc mult.left_commute)
  finally show ?case
    using Cons.IH by simp
qed

section \<open>The intersection polynomial is a polynomial of the expected degree\<close>

lemma eval_intersection_polynomial_line_line:
  "\<exists>k0 k1. \<forall>t. eval_intersection_polynomial [(x0, y0), (x1, y1)] [(u0, v0), (u1, v1)] t =
      Inr (k0 + k1 * t)"
proof -
  define C A B where "C = x0 * y1 - x1 * y0" and "A = y0 - y1" and "B = x1 - x0"
  define k0 k1 where "k0 = C + u0 * A + v0 * B" and "k1 = (u1 - u0) * A + (v1 - v0) * B"
  have "eval_intersection_polynomial [(x0, y0), (x1, y1)] [(u0, v0), (u1, v1)] t =
          Inr (k0 + k1 * t)" for t
    by (simp add: eval_intersection_polynomial_def evaluate_multi2 evaluate_def
          k0_def k1_def C_def A_def B_def; algebra)
  then show ?thesis by blast
qed

lemma eval_intersection_polynomial_line_conic:
  "\<exists>k0 k1 k2. \<forall>t. eval_intersection_polynomial [(x0, y0), (x1, y1)]
        [(u0, v0), (u1, v1), (u2, v2)] t = Inr (k0 + k1 * t + k2 * t^2)"
proof -
  define C A B where "C = x0 * y1 - x1 * y0" and "A = y0 - y1" and "B = x1 - x0"
  define k0 k1 k2 where "k0 = C + u0 * A + v0 * B"
    and "k1 = 2 * (u1 - u0) * A + 2 * (v1 - v0) * B"
    and "k2 = (u0 - 2 * u1 + u2) * A + (v0 - 2 * v1 + v2) * B"
  have "eval_intersection_polynomial [(x0, y0), (x1, y1)] [(u0, v0), (u1, v1), (u2, v2)] t =
          Inr (k0 + k1 * t + k2 * t^2)" for t
    by (simp add: eval_intersection_polynomial_def evaluate_multi3 evaluate_def
          k0_def k1_def k2_def C_def A_def B_def; algebra)
  then show ?thesis by blast
qed

lemma eval_intersection_polynomial_line_cubic:
  "\<exists>k0 k1 k2 k3. \<forall>t. eval_intersection_polynomial [(x0, y0), (x1, y1)]
        [(u0, v0), (u1, v1), (u2, v2), (u3, v3)] t = Inr (k0 + k1 * t + k2 * t^2 + k3 * t^3)"
proof -
  define C A B where "C = x0 * y1 - x1 * y0" and "A = y0 - y1" and "B = x1 - x0"
  define k0 k1 k2 k3 where "k0 = C + u0 * A + v0 * B"
    and "k1 = 3 * (u1 - u0) * A + 3 * (v1 - v0) * B"
    and "k2 = 3 * (u0 - 2 * u1 + u2) * A + 3 * (v0 - 2 * v1 + v2) * B"
    and "k3 = (u3 - 3 * u2 + 3 * u1 - u0) * A + (v3 - 3 * v2 + 3 * v1 - v0) * B"
  have "eval_intersection_polynomial [(x0, y0), (x1, y1)]
          [(u0, v0), (u1, v1), (u2, v2), (u3, v3)] t = Inr (k0 + k1 * t + k2 * t^2 + k3 * t^3)" for t
    by (simp add: eval_intersection_polynomial_def evaluate_multi4 evaluate_def
          k0_def k1_def k2_def k3_def C_def A_def B_def; algebra)
  then show ?thesis by blast
qed

lemma conic_value:
  "evaluate [(x0, y0), (x1, y1), (x2, y2)] X Y =
     Inr (((x0 * y2 - x2 * y0) + X * (y0 - y2) + Y * (x2 - x0))^2 -
          (2 * ((x0 * y1 - x1 * y0) + X * (y0 - y1) + Y * (x1 - x0))) *
          (2 * ((x1 * y2 - x2 * y1) + X * (y1 - y2) + Y * (x2 - x1))))"
  by (simp add: evaluate_def Let_def; algebra)

lemma resultant_quartic:
  fixes p1 q1 r1 p2 q2 r2 p3 q3 r3 t :: real
  shows "(p1 + q1 * t + r1 * t^2)^2 - (p2 + q2 * t + r2 * t^2) * (p3 + q3 * t + r3 * t^2) =
     (p1^2 - p2 * p3) + (2 * p1 * q1 - p2 * q3 - q2 * p3) * t +
     (q1^2 + 2 * p1 * r1 - p2 * r3 - q2 * q3 - r2 * p3) * t^2 +
     (2 * q1 * r1 - q2 * r3 - r2 * q3) * t^3 + (r1^2 - r2 * r3) * t^4"
  by algebra

lemma affine_of_conic:
  fixes C A B u0 u1 u2 v0 v1 v2 t :: real
  shows "C + ((1 - t)^2 * u0 + 2 * (1 - t) * t * u1 + t^2 * u2) * A +
             ((1 - t)^2 * v0 + 2 * (1 - t) * t * v1 + t^2 * v2) * B =
         (C + u0 * A + v0 * B) + (2 * (u1 - u0) * A + 2 * (v1 - v0) * B) * t +
         ((u0 - 2 * u1 + u2) * A + (v0 - 2 * v1 + v2) * B) * t^2"
  by algebra

lemma eval_intersection_polynomial_conic_conic:
  "\<exists>k0 k1 k2 k3 k4. \<forall>t. eval_intersection_polynomial [(x0, y0), (x1, y1), (x2, y2)]
        [(u0, v0), (u1, v1), (u2, v2)] t = Inr (k0 + k1 * t + k2 * t^2 + k3 * t^3 + k4 * t^4)"
proof -
  define p1 q1 r1 where "p1 = (x0 * y2 - x2 * y0) + u0 * (y0 - y2) + v0 * (x2 - x0)"
    and "q1 = 2 * (u1 - u0) * (y0 - y2) + 2 * (v1 - v0) * (x2 - x0)"
    and "r1 = (u0 - 2 * u1 + u2) * (y0 - y2) + (v0 - 2 * v1 + v2) * (x2 - x0)"
  define p2 q2 r2 where "p2 = 2 * ((x0 * y1 - x1 * y0) + u0 * (y0 - y1) + v0 * (x1 - x0))"
    and "q2 = 2 * (2 * (u1 - u0) * (y0 - y1) + 2 * (v1 - v0) * (x1 - x0))"
    and "r2 = 2 * ((u0 - 2 * u1 + u2) * (y0 - y1) + (v0 - 2 * v1 + v2) * (x1 - x0))"
  define p3 q3 r3 where "p3 = 2 * ((x1 * y2 - x2 * y1) + u0 * (y1 - y2) + v0 * (x2 - x1))"
    and "q3 = 2 * (2 * (u1 - u0) * (y1 - y2) + 2 * (v1 - v0) * (x2 - x1))"
    and "r3 = 2 * ((u0 - 2 * u1 + u2) * (y1 - y2) + (v0 - 2 * v1 + v2) * (x2 - x1))"
  have "eval_intersection_polynomial [(x0, y0), (x1, y1), (x2, y2)]
          [(u0, v0), (u1, v1), (u2, v2)] t =
        Inr ((p1^2 - p2 * p3) + (2 * p1 * q1 - p2 * q3 - q2 * p3) * t +
             (q1^2 + 2 * p1 * r1 - p2 * r3 - q2 * q3 - r2 * p3) * t^2 +
             (2 * q1 * r1 - q2 * r3 - r2 * q3) * t^3 + (r1^2 - r2 * r3) * t^4)" for t
  proof -
    let ?X = "(1 - t)^2 * u0 + 2 * (1 - t) * t * u1 + t^2 * u2"
    let ?Y = "(1 - t)^2 * v0 + 2 * (1 - t) * t * v1 + t^2 * v2"
    have l1: "(x0 * y2 - x2 * y0) + ?X * (y0 - y2) + ?Y * (x2 - x0) = p1 + q1 * t + r1 * t^2"
      unfolding p1_def q1_def r1_def by (rule affine_of_conic)
    have l2: "2 * ((x0 * y1 - x1 * y0) + ?X * (y0 - y1) + ?Y * (x1 - x0)) = p2 + q2 * t + r2 * t^2"
      unfolding p2_def q2_def r2_def by (simp only: affine_of_conic) algebra
    have l3: "2 * ((x1 * y2 - x2 * y1) + ?X * (y1 - y2) + ?Y * (x2 - x1)) = p3 + q3 * t + r3 * t^2"
      unfolding p3_def q3_def r3_def by (simp only: affine_of_conic) algebra
    have "eval_intersection_polynomial [(x0, y0), (x1, y1), (x2, y2)]
            [(u0, v0), (u1, v1), (u2, v2)] t =
          Inr ((p1 + q1 * t + r1 * t^2)^2 - (p2 + q2 * t + r2 * t^2) * (p3 + q3 * t + r3 * t^2))"
      by (simp only: eval_intersection_polynomial_def evaluate_multi3 list.case prod.case
            conic_value l1 l2 l3)
    then show ?thesis by (simp only: resultant_quartic)
  qed
  then show ?thesis by blast
qed

section \<open>The coefficients are those of the intersection polynomial\<close>

lemma to_power_basis_line_line:
  assumes "length nodes1 = 2" and "length nodes2 = 2"
  shows "\<exists>cs p. to_power_basis nodes1 nodes2 = Inr cs \<and> length cs = 2 \<and>
           (\<forall>t. eval_intersection_polynomial nodes1 nodes2 t = Inr (p t)) \<and>
           (\<forall>t. horner cs t = p t)"
proof -
  obtain x0 y0 x1 y1 where n1: "nodes1 = [(x0, y0), (x1, y1)]"
    using assms(1) nodes2E by blast
  obtain u0 v0 u1 v1 where n2: "nodes2 = [(u0, v0), (u1, v1)]"
    using assms(2) nodes2E by blast
  obtain k0 k1
    where k: "\<And>t. eval_intersection_polynomial nodes1 nodes2 t = Inr (k0 + k1 * t)"
    unfolding n1 n2 using eval_intersection_polynomial_line_line [of x0 y0 x1 y1 u0 v0 u1 v1]
    by auto
  define p where "p s = k0 + k1 * s" for s
  define cs where "cs = [p 0, - p 0 + p 1]"
  have ev: "eval_intersection_polynomial nodes1 nodes2 s = Inr (p s)" for s
    unfolding p_def by (rule k)
  have "to_power_basis nodes1 nodes2 = Inr cs"
    using assms by (simp add: to_power_basis_def to_power_basis11_def on_value_def ev cs_def)
  moreover have "horner cs t = p t" for t
    unfolding cs_def by (rule linear_samples) (rule p_def)
  moreover have "length cs = 2"
    by (simp add: cs_def)
  ultimately show ?thesis
    using ev by (intro exI [of _ cs] exI [of _ p]) simp
qed

lemma to_power_basis_line_conic:
  assumes "length nodes1 = 2" and "length nodes2 = 3"
  shows "\<exists>cs p. to_power_basis nodes1 nodes2 = Inr cs \<and> length cs = 3 \<and>
           (\<forall>t. eval_intersection_polynomial nodes1 nodes2 t = Inr (p t)) \<and>
           (\<forall>t. horner cs t = p t)"
proof -
  obtain x0 y0 x1 y1 where n1: "nodes1 = [(x0, y0), (x1, y1)]"
    using assms(1) nodes2E by blast
  obtain u0 v0 u1 v1 u2 v2 where n2: "nodes2 = [(u0, v0), (u1, v1), (u2, v2)]"
    using assms(2) nodes3E by blast
  obtain k0 k1 k2
    where k: "\<And>t. eval_intersection_polynomial nodes1 nodes2 t = Inr (k0 + k1 * t + k2 * t^2)"
    unfolding n1 n2 using eval_intersection_polynomial_line_conic [of x0 y0 x1 y1 u0 v0 u1 v1 u2 v2]
    by auto
  define p where "p s = k0 + k1 * s + k2 * s^2" for s
  define cs where "cs = [p 0, - 3 * p 0 + 4 * p (1/2) - p 1, 2 * p 0 - 4 * p (1/2) + 2 * p 1]"
  have ev: "eval_intersection_polynomial nodes1 nodes2 s = Inr (p s)" for s
    unfolding p_def by (rule k)
  have "to_power_basis nodes1 nodes2 = Inr cs"
    using assms by (simp add: to_power_basis_def to_power_basis12_def on_value_def ev cs_def)
  moreover have "horner cs t = p t" for t
    unfolding cs_def by (rule quadratic_samples) (rule p_def)
  moreover have "length cs = 3"
    by (simp add: cs_def)
  ultimately show ?thesis
    using ev by (intro exI [of _ cs] exI [of _ p]) simp
qed

lemma to_power_basis_line_cubic:
  assumes "length nodes1 = 2" and "length nodes2 = 4"
  shows "\<exists>cs p. to_power_basis nodes1 nodes2 = Inr cs \<and>
           (\<forall>t. eval_intersection_polynomial nodes1 nodes2 t = Inr (p t)) \<and>
           (\<forall>t. horner cs t = 3 * p t)"
proof -
  obtain x0 y0 x1 y1 where n1: "nodes1 = [(x0, y0), (x1, y1)]"
    using assms(1) nodes2E by blast
  obtain u0 v0 u1 v1 u2 v2 u3 v3
    where n2: "nodes2 = [(u0, v0), (u1, v1), (u2, v2), (u3, v3)]"
    using assms(2) nodes4E by blast
  obtain k0 k1 k2 k3
    where k: "\<And>t. eval_intersection_polynomial nodes1 nodes2 t =
                   Inr (k0 + k1 * t + k2 * t^2 + k3 * t^3)"
    unfolding n1 n2 using eval_intersection_polynomial_line_cubic [of x0 y0 x1 y1 u0 v0 u1 v1 u2 v2 u3 v3]
    by auto
  define p where "p s = k0 + k1 * s + k2 * s^2 + k3 * s^3" for s
  define cs where "cs = [3 * p 0,
                 - 19 * p 0 + 24 * p (1/4) - 8 * p (3/4) + 3 * p 1,
                 32 * p 0 - 56 * p (1/4) + 40 * p (3/4) - 16 * p 1,
                 - 16 * p 0 + 32 * p (1/4) - 32 * p (3/4) + 16 * p 1]"
  have ev: "eval_intersection_polynomial nodes1 nodes2 s = Inr (p s)" for s
    unfolding p_def by (rule k)
  have "to_power_basis nodes1 nodes2 = Inr cs"
    using assms by (simp add: to_power_basis_def to_power_basis13_def on_value_def ev cs_def)
  moreover have "horner cs t = 3 * p t" for t
    unfolding cs_def by (rule cubic_samples) (rule p_def)
  ultimately show ?thesis
    using ev by (intro exI [of _ cs] exI [of _ p]) simp
qed

lemma to_power_basis_conic_conic:
  assumes "length nodes1 = 3" and "length nodes2 = 3"
  shows "\<exists>cs p. to_power_basis nodes1 nodes2 = Inr cs \<and>
           (\<forall>t. eval_intersection_polynomial nodes1 nodes2 t = Inr (p t)) \<and>
           (\<forall>t. horner cs t = 3 * p t)"
proof -
  obtain x0 y0 x1 y1 x2 y2 where n1: "nodes1 = [(x0, y0), (x1, y1), (x2, y2)]"
    using assms(1) nodes3E by blast
  obtain u0 v0 u1 v1 u2 v2 where n2: "nodes2 = [(u0, v0), (u1, v1), (u2, v2)]"
    using assms(2) nodes3E by blast
  obtain k0 k1 k2 k3 k4
    where k: "\<And>t. eval_intersection_polynomial nodes1 nodes2 t =
                   Inr (k0 + k1 * t + k2 * t^2 + k3 * t^3 + k4 * t^4)"
    unfolding n1 n2 using eval_intersection_polynomial_conic_conic [of x0 y0 x1 y1 x2 y2 u0 v0 u1 v1 u2 v2]
    by auto
  define p where "p s = k0 + k1 * s + k2 * s^2 + k3 * s^3 + k4 * s^4" for s
  define cs where "cs = [3 * p 0,
                 - 25 * p 0 + 48 * p (1/4) - 36 * p (1/2) + 16 * p (3/4) - 3 * p 1,
                 70 * p 0 - 208 * p (1/4) + 228 * p (1/2) - 112 * p (3/4) + 22 * p 1,
                 - 80 * p 0 + 288 * p (1/4) - 384 * p (1/2) + 224 * p (3/4) - 48 * p 1,
                 32 * p 0 - 128 * p (1/4) + 192 * p (1/2) - 128 * p (3/4) + 32 * p 1]"
  have ev: "eval_intersection_polynomial nodes1 nodes2 s = Inr (p s)" for s
    unfolding p_def by (rule k)
  have "to_power_basis nodes1 nodes2 = Inr cs"
    using assms by (simp add: to_power_basis_def to_power_basis22_def on_value_def ev cs_def)
  moreover have "horner cs t = 3 * p t" for t
    unfolding cs_def by (rule quartic_samples) (rule p_def)
  ultimately show ?thesis
    using ev by (intro exI [of _ cs] exI [of _ p]) simp
qed

lemma to_power_basis_polynomial:
  assumes "supported_pair (length nodes1) (length nodes2)"
  shows "\<exists>cs p. to_power_basis nodes1 nodes2 = Inr cs \<and>
           (\<forall>t. eval_intersection_polynomial nodes1 nodes2 t = Inr (p t)) \<and>
           (\<forall>t. horner cs t = coefficient_scale (length nodes1) (length nodes2) * p t)"
proof -
  consider "length nodes1 = 2" "length nodes2 = 2" | "length nodes1 = 2" "length nodes2 = 3"
    | "length nodes1 = 2" "length nodes2 = 4" | "length nodes1 = 3" "length nodes2 = 3"
    using assms unfolding supported_pair_def by blast
  then show ?thesis
  proof cases
    case 1
    with to_power_basis_line_line [OF 1] show ?thesis
      by (auto simp add: coefficient_scale_def)
  next
    case 2
    with to_power_basis_line_conic [OF 2] show ?thesis
      by (auto simp add: coefficient_scale_def)
  next
    case 3
    with to_power_basis_line_cubic [OF 3] show ?thesis
      by (auto simp add: coefficient_scale_def)
  next
    case 4
    with to_power_basis_conic_conic [OF 4] show ?thesis
      by (auto simp add: coefficient_scale_def)
  qed
qed

text \<open>
  Claim C6. For every pair of node arrays of a supported degree pair, \<open>to_power_basis\<close>
  returns a coefficient array of length \<open>deg1 \<cdot> deg2 + 1\<close> (2, 3, 4 and 5 coefficients
  for the pairs 1-1, 1-2, 1-3 and 2-2), in ascending power order: for every \<open>t\<close>, the sum
  of entry \<open>k\<close> times \<open>t\<^sup>k\<close> (equally, Horner evaluation from the constant term up) is
  the intersection polynomial at \<open>t\<close>, times the factor 3 left in for 1-3 and 2-2.
\<close>

theorem to_power_basis_length:
  assumes "supported_pair (length nodes1) (length nodes2)"
  shows "\<exists>cs. to_power_basis nodes1 nodes2 = Inr cs \<and>
           length cs = (length nodes1 - 1) * (length nodes2 - 1) + 1 \<and>
           (\<forall>t. \<exists>v. eval_intersection_polynomial nodes1 nodes2 t = Inr v \<and>
                  horner cs t = coefficient_scale (length nodes1) (length nodes2) * v \<and>
                  (\<Sum>k<length cs. cs ! k * t ^ k) =
                    coefficient_scale (length nodes1) (length nodes2) * v)"
proof -
  obtain cs p
    where cs: "to_power_basis nodes1 nodes2 = Inr cs"
      and ev: "\<And>t. eval_intersection_polynomial nodes1 nodes2 t = Inr (p t)"
      and h: "\<And>t. horner cs t = coefficient_scale (length nodes1) (length nodes2) * p t"
    using to_power_basis_polynomial [OF assms] by auto
  obtain ds where ds: "to_power_basis nodes1 nodes2 = Inr ds"
      and len: "length ds = (length nodes1 - 1) * (length nodes2 - 1) + 1"
    using to_power_basis_supported [OF assms] by auto
  have len': "length cs = (length nodes1 - 1) * (length nodes2 - 1) + 1"
    using cs ds len by simp
  have "\<exists>v. eval_intersection_polynomial nodes1 nodes2 t = Inr v \<and>
          horner cs t = coefficient_scale (length nodes1) (length nodes2) * v \<and>
          (\<Sum>k<length cs. cs ! k * t ^ k) =
            coefficient_scale (length nodes1) (length nodes2) * v" for t
    using ev [of t] h [of t] horner_sum [of cs t] by (intro exI [of _ "p t"]) simp
  then show ?thesis
    using cs len' by (intro exI [of _ cs]) simp
qed

theorem to_power_basis_length_witness:
  "supported_pair (length [(0, 0), (1 :: real, 1 :: real)])
     (length [(0, 1), (1, 2), (2, 0), (3 :: real, 1 :: real)]) \<and>
   to_power_basis [(0, 0), (1, 1)] [(0, 1), (1, 2), (2, 0), (3, 1)] = Inr [3, 0, - 27, 18] \<and>
   length [3, 0, - 27, 18 :: real] = (2 - 1) * (4 - 1) + 1 \<and>
   eval_intersection_polynomial [(0, 0), (1, 1)] [(0, 1), (1, 2), (2, 0), (3, 1)] (1 / 2) =
     Inr (- 1 / 2) \<and>
   horner [3, 0, - 27, 18] (1 / 2) = 3 * (- 1 / 2 :: real)"
proof -
  have supp: "supported_pair (length [(0, 0), (1 :: real, 1 :: real)])
     (length [(0, 1), (1, 2), (2, 0), (3 :: real, 1 :: real)])"
    by (simp add: supported_pair_def)
  have tpb: "to_power_basis [(0, 0), (1, 1)] [(0, 1), (1, 2), (2, 0), (3, 1)] =
               Inr [3, 0, - 27, 18]"
    by (simp add: to_power_basis_def to_power_basis13_def on_value_def
          eval_intersection_polynomial_def evaluate_multi4 evaluate_def
          power2_eq_square power3_eq_cube)
  from to_power_basis_length [OF supp] obtain cs
    where cs: "to_power_basis [(0, 0), (1, 1)] [(0, 1), (1, 2), (2, 0), (3, 1)] = Inr cs"
      and ev: "\<And>t. \<exists>v. eval_intersection_polynomial [(0, 0), (1, 1)]
                   [(0, 1), (1, 2), (2, 0), (3, 1)] t = Inr v \<and>
                 horner cs t = coefficient_scale (length [(0, 0), (1 :: real, 1 :: real)])
                    (length [(0, 1), (1, 2), (2, 0), (3 :: real, 1 :: real)]) * v"
    by blast
  from cs tpb have eq: "cs = [3, 0, - 27, 18]"
    by simp
  obtain v where v: "eval_intersection_polynomial [(0, 0), (1, 1)]
                   [(0, 1), (1, 2), (2, 0), (3, 1)] (1 / 2) = Inr v"
      and hv: "horner [3, 0, - 27, 18] (1 / 2) = 3 * v"
    using ev [of "1 / 2"] unfolding eq by (auto simp add: coefficient_scale_def)
  have "v = - 1 / 2"
    using hv by simp
  with v hv show ?thesis
    using supp tpb by simp
qed

text \<open>
  Claim C3. For the degree pairs 1-3 and 2-2 the returned coefficients are 3 times those
  of the intersection polynomial: Horner evaluation of the returned array at any \<open>t\<close> is
  \<open>3 \<cdot> eval_intersection_polynomial nodes1 nodes2 t\<close>, so the returned polynomial and the
  intersection polynomial have the same roots.
\<close>

theorem to_power_basis_three_times_polynomial:
  assumes "(length nodes1 = 2 \<and> length nodes2 = 4) \<or> (length nodes1 = 3 \<and> length nodes2 = 3)"
  shows "\<exists>cs. to_power_basis nodes1 nodes2 = Inr cs \<and>
           (\<forall>t. eval_intersection_polynomial nodes1 nodes2 t = Inr (horner cs t / 3)) \<and>
           (\<forall>t. horner cs t = 0 \<longleftrightarrow> eval_intersection_polynomial nodes1 nodes2 t = Inr 0)"
proof -
  have "\<exists>cs p. to_power_basis nodes1 nodes2 = Inr cs \<and>
           (\<forall>t. eval_intersection_polynomial nodes1 nodes2 t = Inr (p t)) \<and>
           (\<forall>t. horner cs t = 3 * p t)"
    using assms to_power_basis_line_cubic [of nodes1 nodes2]
      to_power_basis_conic_conic [of nodes1 nodes2]
    by (elim disjE conjE) simp_all
  then obtain cs p
    where cs: "to_power_basis nodes1 nodes2 = Inr cs"
      and ev: "\<And>t. eval_intersection_polynomial nodes1 nodes2 t = Inr (p t)"
      and h: "\<And>t. horner cs t = 3 * p t"
    by auto
  have "eval_intersection_polynomial nodes1 nodes2 t = Inr (horner cs t / 3)" for t
    by (simp add: ev h)
  moreover have "horner cs t = 0 \<longleftrightarrow> eval_intersection_polynomial nodes1 nodes2 t = Inr 0" for t
    by (simp add: ev h)
  ultimately show ?thesis
    using cs by (intro exI [of _ cs]) simp
qed

theorem to_power_basis_three_times_polynomial_witness:
  "to_power_basis [(0, 0), (1, 1)] [(0, 1), (1, 2), (2, 0), (3, 1)] = Inr [3, 0, - 27, 18] \<and>
   eval_intersection_polynomial [(0, 0), (1, 1)] [(0, 1), (1, 2), (2, 0), (3, 1)] (1 / 3) =
     Inr (horner [3, 0, - 27, 18] (1 / 3) / 3) \<and>
   horner [3, 0, - 27, 18] (1 / 3) / 3 = (2 / 9 :: real)"
proof -
  have tpb: "to_power_basis [(0, 0), (1, 1)] [(0, 1), (1, 2), (2, 0), (3, 1)] =
               Inr [3, 0, - 27, 18]"
    by (simp add: to_power_basis_def to_power_basis13_def on_value_def
          eval_intersection_polynomial_def evaluate_multi4 evaluate_def
          power2_eq_square power3_eq_cube)
  have len: "(length [(0, 0), (1 :: real, 1 :: real)] = 2 \<and>
              length [(0, 1), (1, 2), (2, 0), (3 :: real, 1 :: real)] = 4) \<or>
             (length [(0, 0), (1 :: real, 1 :: real)] = 3 \<and>
              length [(0, 1), (1, 2), (2, 0), (3 :: real, 1 :: real)] = 3)"
    by simp
  from to_power_basis_three_times_polynomial [OF len] obtain cs
    where "to_power_basis [(0, 0), (1, 1)] [(0, 1), (1, 2), (2, 0), (3, 1)] = Inr cs"
      and "\<And>t. eval_intersection_polynomial [(0, 0), (1, 1)]
                   [(0, 1), (1, 2), (2, 0), (3, 1)] t = Inr (horner cs t / 3)"
    by auto
  with tpb have "eval_intersection_polynomial [(0, 0), (1, 1)]
      [(0, 1), (1, 2), (2, 0), (3, 1)] (1 / 3) = Inr (horner [3, 0, - 27, 18] (1 / 3) / 3)"
    by simp
  moreover have "horner [3, 0, - 27, 18] (1 / 3) / 3 = (2 / 9 :: real)"
    by simp
  ultimately show ?thesis
    using tpb by simp
qed

section \<open>Horner evaluation at the sample parameters\<close>

text \<open>
  Claim C2, as stated, fails for the pair 1-3: at the sample parameter \<open>t = 0\<close> Horner
  evaluation of the returned coefficients gives 3, the sampled value is 1.
\<close>

theorem to_power_basis_round_trip_counterexample:
  "to_power_basis [(0, 0), (1, 1)] [(0, 1), (1, 2), (2, 0), (3, 1)] = Inr [3, 0, - 27, 18] \<and>
   horner [3, 0, - 27, 18] 0 = 3 \<and>
   eval_intersection_polynomial [(0, 0), (1, 1)] [(0, 1), (1, 2), (2, 0), (3, 1)] 0 = Inr 1"
  by (simp add: to_power_basis_def to_power_basis13_def on_value_def
        eval_intersection_polynomial_def evaluate_multi4 evaluate_def
        power2_eq_square power3_eq_cube)

lemma to_power_basis_round_trip_all:
  assumes "to_power_basis nodes1 nodes2 = Inr cs"
  shows "list_all (\<lambda>t. \<exists>v. eval_intersection_polynomial nodes1 nodes2 t = Inr v \<and>
                       horner cs t = coefficient_scale (length nodes1) (length nodes2) * v)
           (sample_points (length nodes1) (length nodes2))"
proof -
  have "supported_pair (length nodes1) (length nodes2)"
    using assms to_power_basis_unsupported [of nodes1 nodes2] by auto
  then consider "length nodes1 = 2" "length nodes2 = 2" | "length nodes1 = 2" "length nodes2 = 3"
    | "length nodes1 = 2" "length nodes2 = 4" | "length nodes1 = 3" "length nodes2 = 3"
    unfolding supported_pair_def by blast
  then show ?thesis
  proof cases
    case 1
    with to_power_basis_2_2 [OF 1] assms show ?thesis
      by (auto simp add: sample_points_def coefficient_scale_def field_simps)
  next
    case 2
    with to_power_basis_2_3 [OF 2] assms show ?thesis
      by (auto simp add: sample_points_def coefficient_scale_def field_simps)
  next
    case 3
    with to_power_basis_2_4 [OF 3] assms show ?thesis
      by (auto simp add: sample_points_def coefficient_scale_def field_simps)
  next
    case 4
    with to_power_basis_3_3 [OF 4] assms show ?thesis
      by (auto simp add: sample_points_def coefficient_scale_def field_simps)
  qed
qed

text \<open>
  Claim C2, amended. For every supported degree pair, Horner evaluation of the returned
  coefficients at each of the pair's sample parameters is the sampled value times the
  factor the helper leaves in: the sampled value itself for the pairs 1-1 and 1-2, 3
  times the sampled value for the pairs 1-3 and 2-2.
\<close>

theorem to_power_basis_round_trip:
  assumes "to_power_basis nodes1 nodes2 = Inr cs"
    and "t \<in> set (sample_points (length nodes1) (length nodes2))"
  shows "\<exists>v. eval_intersection_polynomial nodes1 nodes2 t = Inr v \<and>
           horner cs t = coefficient_scale (length nodes1) (length nodes2) * v"
  using to_power_basis_round_trip_all [OF assms(1)] assms(2)
  unfolding list_all_iff by blast

theorem to_power_basis_round_trip_witness:
  "to_power_basis [(0, 0), (1, 1)] [(0, 0), (1, 2), (2, 0)] = Inr [0, 2, - 4] \<and>
   (1 / 2) \<in> set (sample_points 2 3) \<and>
   eval_intersection_polynomial [(0, 0), (1, 1)] [(0, 0), (1, 2), (2, 0)] (1 / 2) = Inr 0 \<and>
   horner [0, 2, - 4] (1 / 2) = coefficient_scale 2 3 * 0"
proof -
  have tpb: "to_power_basis [(0, 0), (1, 1)] [(0, 0), (1, 2), (2, 0)] = Inr [0, 2, - 4]"
    by (simp add: to_power_basis_def to_power_basis12_def on_value_def
          eval_intersection_polynomial_def evaluate_multi3 evaluate_def power2_eq_square)
  have mem: "(1 / 2) \<in> set (sample_points (length [(0, 0), (1 :: real, 1 :: real)])
                 (length [(0, 0), (1, 2), (2 :: real, 0 :: real)]))"
    by (simp add: sample_points_def)
  from to_power_basis_round_trip [OF tpb mem] show ?thesis
    using tpb by (auto simp add: sample_points_def coefficient_scale_def)
qed

end
